theory Spec2Isabelle
  imports Complex_Main "HOL-Library.Sublist"
begin

section \<open>The data-type registry of the telemetry stream (data-types.ts)\<close>

subsection \<open>Data model\<close>

text \<open>
  The enum \<open>DataTypeEnum\<close>. Its members are string constants; \<open>enumValue\<close> gives the
  string of each member. The registry object is keyed by these strings, so a key of the
  object and a member of the enum are the same thing as soon as \<open>enumValue\<close> is injective.
\<close>

datatype DataTypeEnum =
    TIME_SERIES
  | PARAMETERS
  | IMAGES
  | VIDEO
  | AUDIO
  | LOG
  | MARKDOWN
  | FILE
  | CSV
  | SAFETENSORS

fun enumValue :: "DataTypeEnum \<Rightarrow> string" where
  "enumValue TIME_SERIES = ''time_series''"
| "enumValue PARAMETERS = ''parameters''"
| "enumValue IMAGES = ''images''"
| "enumValue VIDEO = ''video''"
| "enumValue AUDIO = ''audio''"
| "enumValue LOG = ''log''"
| "enumValue MARKDOWN = ''markdown''"
| "enumValue FILE = ''file''"
| "enumValue CSV = ''csv''"
| "enumValue SAFETENSORS = ''safetensors''"

datatype StorageBackend = mongodb | s3 | both

text \<open>
  The interface \<open>DataTypeDefinition\<close>. A TypeScript \<open>number\<close> is modelled as a real;
  the optional field \<open>maxSizeMB\<close> is \<open>None\<close> when it is absent.
\<close>

record DataTypeDefinition =
  type :: DataTypeEnum
  mimeTypes :: "string list"
  fileSuffixes :: "string list"
  description :: string
  storageBackend :: StorageBackend
  compressionSupported :: bool
  streamingSupported :: bool
  maxSizeMB :: "real option"

text \<open>
  The interface \<open>DataPayload\<close>, with its typed fields. The two fields of type \<open>any\<close>
  (\<open>metadata\<close> and \<open>data\<close>) are read by none of the functions below and live in the
  extension part of the record.
\<close>

record DataPayload =
  timestamp :: real
  robotId :: string
  sessionId :: string
  dataType :: DataTypeEnum
  sequenceNumber :: real
  mimeType :: "string option"
  encoding :: "string option"
  compression :: "string option"
  originalSize :: "real option"
  compressedSize :: "real option"
  checksum :: "string option"
  s3Key :: "string option"
  mongodbId :: "string option"

text \<open>
  A JavaScript object is an insertion-ordered list of key/value pairs: \<open>Object.entries\<close>
  walks it in that order, and \<open>obj[key]\<close> is a lookup that yields \<open>undefined\<close>
  (here \<open>None\<close>) for a key that is not there.
\<close>

type_synonym registry = "(DataTypeEnum \<times> DataTypeDefinition) list"

definition DATA_TYPE_DEFINITIONS :: registry where
  "DATA_TYPE_DEFINITIONS = [
    (TIME_SERIES, \<lparr>
      type = TIME_SERIES,
      mimeTypes = [''application/json'', ''application/x-msgpack'', ''application/cbor''],
      fileSuffixes = [''.json'', ''.msgpack'', ''.cbor'', ''.timeseries''],
      description = ''Time-indexed numerical data (telemetry, sensors, metrics)'',
      storageBackend = mongodb,
      compressionSupported = True,
      streamingSupported = True,
      maxSizeMB = Some 100 \<rparr>),
    (PARAMETERS, \<lparr>
      type = PARAMETERS,
      mimeTypes = [''application/json'', ''application/yaml'', ''application/toml''],
      fileSuffixes = [''.json'', ''.yaml'', ''.yml'', ''.toml'', ''.params''],
      description = ''Configuration parameters and hyperparameters'',
      storageBackend = mongodb,
      compressionSupported = False,
      streamingSupported = False,
      maxSizeMB = Some 10 \<rparr>),
    (IMAGES, \<lparr>
      type = IMAGES,
      mimeTypes = [''image/jpeg'', ''image/png'', ''image/webp'', ''image/tiff'',
        ''image/bmp'', ''image/gif'', ''image/svg+xml'', ''image/x-raw''],
      fileSuffixes = [''.jpg'', ''.jpeg'', ''.png'', ''.webp'', ''.tiff'', ''.tif'', ''.bmp'',
        ''.gif'', ''.svg'', ''.raw'', ''.nef'', ''.cr2'', ''.arw''],
      description = ''Static images including RGB, depth, thermal, and raw sensor data'',
      storageBackend = s3,
      compressionSupported = True,
      streamingSupported = False,
      maxSizeMB = Some 50 \<rparr>),
    (VIDEO, \<lparr>
      type = VIDEO,
      mimeTypes = [''video/mp4'', ''video/webm'', ''video/x-msvideo'', ''video/quicktime'',
        ''video/x-matroska'', ''video/H264'', ''video/H265''],
      fileSuffixes = [''.mp4'', ''.webm'', ''.avi'', ''.mov'', ''.mkv'', ''.h264'', ''.h265'',
        ''.hevc'', ''.m4v'', ''.wmv''],
      description = ''Video streams from cameras and recorded sessions'',
      storageBackend = s3,
      compressionSupported = True,
      streamingSupported = True,
      maxSizeMB = Some 5000 \<rparr>),
    (AUDIO, \<lparr>
      type = AUDIO,
      mimeTypes = [''audio/mpeg'', ''audio/wav'', ''audio/ogg'', ''audio/webm'', ''audio/aac'',
        ''audio/flac'', ''audio/opus''],
      fileSuffixes = [''.mp3'', ''.wav'', ''.ogg'', ''.webm'', ''.aac'', ''.flac'', ''.opus'',
        ''.m4a'', ''.wma''],
      description = ''Audio recordings and streams from microphones'',
      storageBackend = s3,
      compressionSupported = True,
      streamingSupported = True,
      maxSizeMB = Some 500 \<rparr>),
    (LOG, \<lparr>
      type = LOG,
      mimeTypes = [''text/plain'', ''application/x-ndjson'', ''text/x-log''],
      fileSuffixes = [''.log'', ''.txt'', ''.ndjson'', ''.jsonl'', ''.stdout'', ''.stderr''],
      description = ''Text logs from system components and applications'',
      storageBackend = mongodb,
      compressionSupported = True,
      streamingSupported = True,
      maxSizeMB = Some 100 \<rparr>),
    (MARKDOWN, \<lparr>
      type = MARKDOWN,
      mimeTypes = [''text/markdown'', ''text/x-markdown'', ''text/plain''],
      fileSuffixes = [''.md'', ''.markdown'', ''.mdown'', ''.mkd''],
      description = ''Documentation and formatted text notes'',
      storageBackend = mongodb,
      compressionSupported = True,
      streamingSupported = False,
      maxSizeMB = Some 10 \<rparr>),
    (FILE, \<lparr>
      type = FILE,
      mimeTypes = [''application/octet-stream'', ''*/*''],
      fileSuffixes = [''*''],
      description = ''Generic file storage for any binary or text data'',
      storageBackend = s3,
      compressionSupported = True,
      streamingSupported = False,
      maxSizeMB = Some 1000 \<rparr>),
    (CSV, \<lparr>
      type = CSV,
      mimeTypes = [''text/csv'', ''application/csv'', ''text/tab-separated-values''],
      fileSuffixes = [''.csv'', ''.tsv'', ''.tab''],
      description = ''Tabular data in comma or tab-separated format'',
      storageBackend = both,
      compressionSupported = True,
      streamingSupported = False,
      maxSizeMB = Some 500 \<rparr>),
    (SAFETENSORS, \<lparr>
      type = SAFETENSORS,
      mimeTypes = [''application/x-safetensors'', ''application/octet-stream''],
      fileSuffixes = [''.safetensors'', ''.st''],
      description = ''Safe serialization format for ML model tensors'',
      storageBackend = s3,
      compressionSupported = False,
      streamingSupported = False,
      maxSizeMB = Some 10000 \<rparr>)
  ]"

subsection \<open>The string operations of the host language\<close>

text \<open>
  A \<open>string\<close> is a list of 8-bit characters, read as the code points U+0000 to U+00FF.
  On these, \<open>String.prototype.toLowerCase\<close> moves the letters A to Z and the Latin-1
  capitals U+00C0 to U+00DE (the multiplication sign U+00D7 apart) up by 32 and leaves
  every other character alone. File names with code points from U+0100 on are outside
  this model.
\<close>

definition toLowerCaseChar :: "char \<Rightarrow> char" where
  "toLowerCaseChar c =
     (let n = (of_char c :: nat)
      in if (65 \<le> n \<and> n \<le> 90) \<or> (192 \<le> n \<and> n \<le> 222 \<and> n \<noteq> 215)
         then char_of (n + 32) else c)"

definition toLowerCase :: "string \<Rightarrow> string" where
  "toLowerCase s = map toLowerCaseChar s"

text \<open>\<open>s.endsWith(x)\<close>: the last \<open>length x\<close> characters of \<open>s\<close> are \<open>x\<close>.\<close>

definition endsWith :: "string \<Rightarrow> string \<Rightarrow> bool" where
  "endsWith s x = (length x \<le> length s \<and> drop (length s - length x) s = x)"

text \<open>\<open>xs.some(p)\<close> and \<open>xs.includes(x)\<close> on arrays (\<open>includes\<close> is a keyword of Isabelle).\<close>

definition some :: "'a list \<Rightarrow> ('a \<Rightarrow> bool) \<Rightarrow> bool" where
  "some xs p = list_ex p xs"

definition arrayIncludes :: "'a list \<Rightarrow> 'a \<Rightarrow> bool" where
  "arrayIncludes xs x = (x \<in> set xs)"

text \<open>
  \<open>xs[0] || d\<close> on an array of strings: \<open>xs[0]\<close> is \<open>undefined\<close> on the empty array, and
  both \<open>undefined\<close> and the empty string are falsy, so that \<open>d\<close> is the value then.
\<close>

definition firstElement :: "string list \<Rightarrow> string option" where
  "firstElement xs = (case xs of [] \<Rightarrow> None | x # _ \<Rightarrow> Some x)"

definition falsy :: "string option \<Rightarrow> bool" where
  "falsy v = (v = None \<or> v = Some [])"

definition orElse :: "string option \<Rightarrow> string \<Rightarrow> string" where
  "orElse v d = (case v of None \<Rightarrow> d | Some s \<Rightarrow> if falsy v then d else s)"

text \<open>Reading a property of \<open>undefined\<close> throws a \<open>TypeError\<close>.\<close>

datatype js_error = TypeError

subsection \<open>The utility functions\<close>

text \<open>
  Each function reads the registry object. The functions with the suffix \<open>_in\<close> take the
  object they read as an argument; the functions of the module are these at the object
  \<open>DATA_TYPE_DEFINITIONS\<close>.
\<close>

text \<open>The test \<open>matches\<close> of \<open>getDataTypeForFile\<close>, also the last test of \<open>matchesSuffix\<close>.\<close>

definition suffixMatches :: "DataTypeDefinition \<Rightarrow> string \<Rightarrow> bool" where
  "suffixMatches defn filename =
     some (fileSuffixes defn) (\<lambda>suffix. endsWith (toLowerCase filename) suffix)"

text \<open>The loop of \<open>getDataTypeForFile\<close> over \<open>Object.entries(DATA_TYPE_DEFINITIONS)\<close>.\<close>

fun getDataTypeForFile_in :: "registry \<Rightarrow> string \<Rightarrow> DataTypeEnum" where
  "getDataTypeForFile_in [] filename = FILE"
| "getDataTypeForFile_in ((dtype, defn) # entries) filename =
     (if dtype = FILE then getDataTypeForFile_in entries filename
      else if suffixMatches defn filename then dtype
      else getDataTypeForFile_in entries filename)"

definition getDataTypeForFile :: "string \<Rightarrow> DataTypeEnum" where
  "getDataTypeForFile filename = getDataTypeForFile_in DATA_TYPE_DEFINITIONS filename"

definition getMimeTypeForFile_in :: "registry \<Rightarrow> string \<Rightarrow> js_error + string" where
  "getMimeTypeForFile_in T filename =
     (let dtype = getDataTypeForFile_in T filename
      in case map_of T dtype of
           None \<Rightarrow> Inl TypeError
         | Some defn \<Rightarrow> Inr (orElse (firstElement (mimeTypes defn)) ''application/octet-stream''))"

definition getMimeTypeForFile :: "string \<Rightarrow> js_error + string" where
  "getMimeTypeForFile filename = getMimeTypeForFile_in DATA_TYPE_DEFINITIONS filename"

definition getPrimaryMimeType_in :: "registry \<Rightarrow> DataTypeEnum \<Rightarrow> js_error + string" where
  "getPrimaryMimeType_in T dataType' =
     (case map_of T dataType' of
        None \<Rightarrow> Inl TypeError
      | Some defn \<Rightarrow> Inr (orElse (firstElement (mimeTypes defn)) ''application/octet-stream''))"

definition getPrimaryMimeType :: "DataTypeEnum \<Rightarrow> js_error + string" where
  "getPrimaryMimeType dataType' = getPrimaryMimeType_in DATA_TYPE_DEFINITIONS dataType'"

text \<open>
  The body of \<open>validatePayloadSize\<close> once the definition is at hand. \<open>!definition.maxSizeMB\<close>
  holds for an absent ceiling and for the ceiling 0; \<open>payload.originalSize || 0\<close> is 0 for
  an absent size. Dividing a double by \<open>1024 * 1024\<close> only changes its exponent, so the
  comparison of the quotient with the ceiling comes out as it does over the reals.
  The values \<open>NaN\<close> and \<open>Infinity\<close> of a \<open>number\<close> have no counterpart in the model.
\<close>

definition sizeWithinLimit :: "DataTypeDefinition \<Rightarrow> 'a DataPayload_scheme \<Rightarrow> bool" where
  "sizeWithinLimit defn payload =
     (case maxSizeMB defn of
        None \<Rightarrow> True
      | Some limit \<Rightarrow>
          if limit = 0 then True
          else (let sizeMB = (case originalSize payload of None \<Rightarrow> 0 | Some n \<Rightarrow> n) / (1024 * 1024)
                in sizeMB \<le> limit))"

definition validatePayloadSize_in :: "registry \<Rightarrow> 'a DataPayload_scheme \<Rightarrow> js_error + bool" where
  "validatePayloadSize_in T payload =
     (case map_of T (dataType payload) of
        None \<Rightarrow> Inl TypeError
      | Some defn \<Rightarrow> Inr (sizeWithinLimit defn payload))"

definition validatePayloadSize :: "'a DataPayload_scheme \<Rightarrow> js_error + bool" where
  "validatePayloadSize payload = validatePayloadSize_in DATA_TYPE_DEFINITIONS payload"

definition matchesSuffix_in :: "registry \<Rightarrow> string \<Rightarrow> DataTypeEnum \<Rightarrow> js_error + bool" where
  "matchesSuffix_in T filename dataType' =
     (case map_of T dataType' of
        None \<Rightarrow> Inl TypeError
      | Some defn \<Rightarrow>
          Inr (if arrayIncludes (fileSuffixes defn) ''*'' then True else suffixMatches defn filename))"

definition matchesSuffix :: "string \<Rightarrow> DataTypeEnum \<Rightarrow> js_error + bool" where
  "matchesSuffix filename dataType' = matchesSuffix_in DATA_TYPE_DEFINITIONS filename dataType'"

subsection \<open>Notions the properties are stated with\<close>

text \<open>\<open>DATA_TYPE_DEFINITIONS[d]\<close>, and the suffix and MIME lists found under \<open>d\<close>.\<close>

definition lookupDefinition :: "DataTypeEnum \<Rightarrow> DataTypeDefinition option" where
  "lookupDefinition d = map_of DATA_TYPE_DEFINITIONS d"

definition suffixesOf :: "DataTypeEnum \<Rightarrow> string list" where
  "suffixesOf d = (case lookupDefinition d of None \<Rightarrow> [] | Some defn \<Rightarrow> fileSuffixes defn)"

definition mimeCandidatesOf :: "DataTypeEnum \<Rightarrow> string list" where
  "mimeCandidatesOf d = (case lookupDefinition d of None \<Rightarrow> [] | Some defn \<Rightarrow> mimeTypes defn)"

text \<open>Some type other than \<open>FILE\<close> has a suffix that the lower-cased file name ends with.\<close>

definition specificSuffixMatch_in :: "registry \<Rightarrow> string \<Rightarrow> bool" where
  "specificSuffixMatch_in T filename =
     list_ex (\<lambda>(dtype, defn). dtype \<noteq> FILE \<and> suffixMatches defn filename) T"

definition specificSuffixMatch :: "string \<Rightarrow> bool" where
  "specificSuffixMatch filename = specificSuffixMatch_in DATA_TYPE_DEFINITIONS filename"

text \<open>The registry without its entries for \<open>FILE\<close>.\<close>

definition withoutFILE :: "registry \<Rightarrow> registry" where
  "withoutFILE T = filter (\<lambda>entry. fst entry \<noteq> FILE) T"

text \<open>A suffix made of a dot and then characters other than the dot.\<close>

definition dotSuffix :: "string \<Rightarrow> bool" where
  "dotSuffix s = (case s of [] \<Rightarrow> False | c # cs \<Rightarrow> c = CHR ''.'' \<and> CHR ''.'' \<notin> set cs)"

text \<open>The size ceiling of a data type in bytes, and a payload whose size is above it.\<close>

definition maxSizeBytes :: "DataTypeEnum \<Rightarrow> real option" where
  "maxSizeBytes d =
     (case lookupDefinition d of
        None \<Rightarrow> None
      | Some defn \<Rightarrow> (case maxSizeMB defn of None \<Rightarrow> None | Some m \<Rightarrow> Some (m * (1024 * 1024))))"

definition exceedsCeiling :: "'a DataPayload_scheme \<Rightarrow> bool" where
  "exceedsCeiling payload =
     (case originalSize payload of
        None \<Rightarrow> False
      | Some n \<Rightarrow> (case maxSizeBytes (dataType payload) of None \<Rightarrow> False | Some c \<Rightarrow> c < n))"

text \<open>A payload of a given type and size, every other field at a fixed value.\<close>

definition payloadOf :: "DataTypeEnum \<Rightarrow> real option \<Rightarrow> DataPayload" where
  "payloadOf d n = \<lparr>
     timestamp = 0, robotId = ''robot-1'', sessionId = ''session-1'', dataType = d,
     sequenceNumber = 1, mimeType = None, encoding = None, compression = None,
     originalSize = n, compressedSize = None, checksum = None, s3Key = None,
     mongodbId = None \<rparr>"

text \<open>A definition that declares no size ceiling.\<close>

definition unlimitedDefinition :: DataTypeDefinition where
  "unlimitedDefinition = \<lparr>
     type = FILE, mimeTypes = [''application/octet-stream''], fileSuffixes = [''*''],
     description = ''no ceiling'', storageBackend = s3, compressionSupported = False,
     streamingSupported = False, maxSizeMB = None \<rparr>"

subsection \<open>The functions as actions on the registry\<close>

text \<open>
  \<open>DATA_TYPE_DEFINITIONS\<close> is a \<open>const\<close> binding of a mutable object, and it is the only
  module-level state of data-types.ts. To say what a function does to it, the bodies of
  the five functions are written once more as actions: an action takes the registry as it
  is and returns a value or a thrown error together with the registry as it leaves it.
  The steps an action is made of are the steps of the source: reading the entries of the
  object, reading a property of it, reading a member of the value read, running an array
  method with its callback, returning. Assigning to a property of the object is an action
  as well; it is the step the five bodies would need in order to change the registry.
\<close>

type_synonym 'a action = "registry \<Rightarrow> (js_error + 'a) \<times> registry"

text \<open>\<open>return x\<close>, and a step followed by the rest of the body; a thrown error ends the body.\<close>

definition pureAct :: "'a \<Rightarrow> 'a action" where
  "pureAct x = (\<lambda>\<sigma>. (Inr x, \<sigma>))"

definition andThen :: "'a action \<Rightarrow> ('a \<Rightarrow> 'b action) \<Rightarrow> 'b action" where
  "andThen m k = (\<lambda>\<sigma>. case m \<sigma> of (Inl e, \<sigma>') \<Rightarrow> (Inl e, \<sigma>') | (Inr x, \<sigma>') \<Rightarrow> k x \<sigma>')"

text \<open>\<open>Object.entries(DATA_TYPE_DEFINITIONS)\<close> and \<open>DATA_TYPE_DEFINITIONS[key]\<close>.\<close>

definition objectEntries :: "(DataTypeEnum \<times> DataTypeDefinition) list action" where
  "objectEntries = (\<lambda>\<sigma>. (Inr \<sigma>, \<sigma>))"

definition readProperty :: "DataTypeEnum \<Rightarrow> DataTypeDefinition option action" where
  "readProperty key = (\<lambda>\<sigma>. (Inr (map_of \<sigma> key), \<sigma>))"

text \<open>\<open>definition.member\<close>: a \<open>TypeError\<close> when \<open>definition\<close> is \<open>undefined\<close>.\<close>

definition member :: "DataTypeDefinition option \<Rightarrow> (DataTypeDefinition \<Rightarrow> 'a) \<Rightarrow> 'a action" where
  "member defn sel = (\<lambda>\<sigma>. case defn of None \<Rightarrow> (Inl TypeError, \<sigma>) | Some v \<Rightarrow> (Inr (sel v), \<sigma>))"

text \<open>
  \<open>DATA_TYPE_DEFINITIONS[key] = value\<close>: the value of a key that is there is replaced in
  its place, a new key goes to the end.
\<close>

definition assignProperty :: "DataTypeEnum \<Rightarrow> DataTypeDefinition \<Rightarrow> unit action" where
  "assignProperty key v =
     (\<lambda>\<sigma>. (Inr (),
        if key \<in> set (map fst \<sigma>)
        then map (\<lambda>entry. if fst entry = key then (key, v) else entry) \<sigma>
        else \<sigma> @ [(key, v)]))"

text \<open>\<open>xs.some(callback)\<close>, the callback being an action itself.\<close>

fun arraySome :: "'a list \<Rightarrow> ('a \<Rightarrow> bool action) \<Rightarrow> bool action" where
  "arraySome [] callback = pureAct False"
| "arraySome (x # xs) callback =
     andThen (callback x) (\<lambda>found. if found then pureAct True else arraySome xs callback)"

text \<open>The loop of \<open>getDataTypeForFile\<close> over the entries read, and the function.\<close>

fun entriesLoop :: "(DataTypeEnum \<times> DataTypeDefinition) list \<Rightarrow> string \<Rightarrow> DataTypeEnum action" where
  "entriesLoop [] filename = pureAct FILE"
| "entriesLoop ((dtype, defn) # entries) filename =
     (if dtype = FILE then entriesLoop entries filename
      else andThen
        (arraySome (fileSuffixes defn)
           (\<lambda>suffix. pureAct (endsWith (toLowerCase filename) suffix)))
        (\<lambda>matches. if matches then pureAct dtype else entriesLoop entries filename))"

definition getDataTypeForFile_act :: "string \<Rightarrow> DataTypeEnum action" where
  "getDataTypeForFile_act filename =
     andThen objectEntries (\<lambda>entries. entriesLoop entries filename)"

definition getMimeTypeForFile_act :: "string \<Rightarrow> string action" where
  "getMimeTypeForFile_act filename =
     andThen (getDataTypeForFile_act filename) (\<lambda>dtype.
     andThen (readProperty dtype) (\<lambda>defn.
     andThen (member defn mimeTypes) (\<lambda>candidates.
     pureAct (orElse (firstElement candidates) ''application/octet-stream''))))"

definition getPrimaryMimeType_act :: "DataTypeEnum \<Rightarrow> string action" where
  "getPrimaryMimeType_act dataType' =
     andThen (readProperty dataType') (\<lambda>defn.
     andThen (member defn mimeTypes) (\<lambda>candidates.
     pureAct (orElse (firstElement candidates) ''application/octet-stream'')))"

definition validatePayloadSize_act :: "'a DataPayload_scheme \<Rightarrow> bool action" where
  "validatePayloadSize_act payload =
     andThen (readProperty (dataType payload)) (\<lambda>defn.
     andThen (member defn maxSizeMB) (\<lambda>ceiling'.
     (case ceiling' of
        None \<Rightarrow> pureAct True
      | Some limit \<Rightarrow>
          if limit = 0 then pureAct True
          else (let sizeMB = (case originalSize payload of None \<Rightarrow> 0 | Some n \<Rightarrow> n) / (1024 * 1024)
                in pureAct (sizeMB \<le> limit)))))"

definition matchesSuffix_act :: "string \<Rightarrow> DataTypeEnum \<Rightarrow> bool action" where
  "matchesSuffix_act filename dataType' =
     andThen (readProperty dataType') (\<lambda>defn.
     andThen (member defn fileSuffixes) (\<lambda>suffixes.
     if arrayIncludes suffixes ''*'' then pureAct True
     else andThen (member defn fileSuffixes) (\<lambda>suffixes'.
          arraySome suffixes' (\<lambda>suffix. pureAct (endsWith (toLowerCase filename) suffix)))))"

text \<open>
  A call of one of the five functions, its result, and a sequence of calls run one after
  the other, each on the registry the call before it left. A caller that goes on after a
  thrown error is assumed, so that the sequence is run to its end.
\<close>

datatype registryCall =
    GetDataTypeForFile string
  | GetMimeTypeForFile string
  | GetPrimaryMimeType DataTypeEnum
  | ValidatePayloadSize DataPayload
  | MatchesSuffix string DataTypeEnum

datatype registryResult =
    DataTypeResult DataTypeEnum
  | StringResult string
  | BoolResult bool

fun invoke :: "registryCall \<Rightarrow> registryResult action" where
  "invoke (GetDataTypeForFile filename) =
     andThen (getDataTypeForFile_act filename) (\<lambda>r. pureAct (DataTypeResult r))"
| "invoke (GetMimeTypeForFile filename) =
     andThen (getMimeTypeForFile_act filename) (\<lambda>r. pureAct (StringResult r))"
| "invoke (GetPrimaryMimeType d) =
     andThen (getPrimaryMimeType_act d) (\<lambda>r. pureAct (StringResult r))"
| "invoke (ValidatePayloadSize payload) =
     andThen (validatePayloadSize_act payload) (\<lambda>r. pureAct (BoolResult r))"
| "invoke (MatchesSuffix filename d) =
     andThen (matchesSuffix_act filename d) (\<lambda>r. pureAct (BoolResult r))"

fun invokeAll :: "registryCall list \<Rightarrow> registry \<Rightarrow> (js_error + registryResult) list \<times> registry" where
  "invokeAll [] \<sigma> = ([], \<sigma>)"
| "invokeAll (c # cs) \<sigma> =
     (case invoke c \<sigma> of (r, \<sigma>') \<Rightarrow>
        (case invokeAll cs \<sigma>' of (rs, \<sigma>'') \<Rightarrow> (r # rs, \<sigma>'')))"

text \<open>What the module's own function returns for a call.\<close>

fun moduleResult :: "registryCall \<Rightarrow> js_error + registryResult" where
  "moduleResult (GetDataTypeForFile filename) = Inr (DataTypeResult (getDataTypeForFile filename))"
| "moduleResult (GetMimeTypeForFile filename) = map_sum id StringResult (getMimeTypeForFile filename)"
| "moduleResult (GetPrimaryMimeType d) = map_sum id StringResult (getPrimaryMimeType d)"
| "moduleResult (ValidatePayloadSize payload) = map_sum id BoolResult (validatePayloadSize payload)"
| "moduleResult (MatchesSuffix filename d) = map_sum id BoolResult (matchesSuffix filename d)"

text \<open>
  For contrast, a function that is not in the module: \<open>getPrimaryMimeType\<close> with
  \<open>mimeTypes.shift()\<close> in the place of \<open>mimeTypes[0]\<close>. The method \<open>shift\<close> takes the
  first element out of the array it is called on, which is an assignment to the registry.
\<close>

definition getPrimaryMimeType_shifting :: "DataTypeEnum \<Rightarrow> string action" where
  "getPrimaryMimeType_shifting dataType' =
     andThen (readProperty dataType') (\<lambda>defn.
     andThen (member defn mimeTypes) (\<lambda>candidates.
     andThen (member defn (\<lambda>v. v\<lparr>mimeTypes := tl candidates\<rparr>)) (\<lambda>shifted.
     andThen (assignProperty dataType' shifted) (\<lambda>_.
     pureAct (orElse (firstElement candidates) ''application/octet-stream'')))))"

section \<open>Properties\<close>

subsection \<open>Strings\<close>

lemma endsWith_suffix: "endsWith s x = suffix x s"
proof
  assume "endsWith s x"
  then have "s = take (length s - length x) s @ x"
    by (metis append_take_drop_id endsWith_def)
  then show "suffix x s" by (metis suffixI)
next
  assume "suffix x s"
  then obtain p where "s = p @ x" by (auto simp: suffix_def)
  then show "endsWith s x" by (simp add: endsWith_def)
qed

lemma of_char_toLowerCaseChar:
  "(of_char (toLowerCaseChar c) :: nat) =
     (let n = of_char c in
      if (65 \<le> n \<and> n \<le> 90) \<or> (192 \<le> n \<and> n \<le> 222 \<and> n \<noteq> 215) then n + 32 else n)"
  by (auto simp: toLowerCaseChar_def Let_def)

lemma toLowerCaseChar_idem: "toLowerCaseChar (toLowerCaseChar c) = toLowerCaseChar c"
proof -
  have "(of_char (toLowerCaseChar (toLowerCaseChar c)) :: nat) = of_char (toLowerCaseChar c)"
    by (simp add: of_char_toLowerCaseChar [of "toLowerCaseChar c"] of_char_toLowerCaseChar [of c] Let_def)
  then show ?thesis by (simp only: of_char_eq_iff)
qed

lemma toLowerCase_idem: "toLowerCase (toLowerCase s) = toLowerCase s"
  by (simp add: toLowerCase_def toLowerCaseChar_idem)

lemma DataTypeEnum_UNIV:
  "(UNIV :: DataTypeEnum set) =
     {TIME_SERIES, PARAMETERS, IMAGES, VIDEO, AUDIO, LOG, MARKDOWN, FILE, CSV, SAFETENSORS}"
proof -
  have "d \<in> {TIME_SERIES, PARAMETERS, IMAGES, VIDEO, AUDIO, LOG, MARKDOWN, FILE, CSV, SAFETENSORS}" for d
    by (cases d) simp_all
  then show ?thesis by blast
qed

lemma inj_enumValue: "inj enumValue"
proof (rule injI)
  fix a b assume "enumValue a = enumValue b"
  then show "a = b" by (cases a; cases b; simp)
qed

subsection \<open>The search of the registry\<close>

lemma search_FILE_iff:
  "(getDataTypeForFile_in T f = FILE) = (\<not> specificSuffixMatch_in T f)"
  by (induction T) (auto simp: specificSuffixMatch_in_def split: if_splits)

lemma search_hit:
  "getDataTypeForFile_in T f \<noteq> FILE \<Longrightarrow>
     \<exists>defn. (getDataTypeForFile_in T f, defn) \<in> set T \<and> suffixMatches defn f"
  by (induction T) (auto split: if_splits)

lemma search_withoutFILE:
  "getDataTypeForFile_in (withoutFILE T) f = getDataTypeForFile_in T f"
  by (induction T) (auto simp: withoutFILE_def)

lemma search_first:
  "getDataTypeForFile_in T f \<noteq> FILE \<Longrightarrow>
     \<exists>pre defn post. T = pre @ (getDataTypeForFile_in T f, defn) # post \<and> suffixMatches defn f \<and>
        \<not> specificSuffixMatch_in pre f"
proof (induction T)
  case Nil
  then show ?case by simp
next
  case (Cons e T)
  obtain d defn where e: "e = (d, defn)" by (cases e)
  show ?case
  proof (cases "d \<noteq> FILE \<and> suffixMatches defn f")
    case True
    then have "getDataTypeForFile_in (e # T) f = d" by (simp add: e)
    moreover have "e # T = [] @ (d, defn) # T" by (simp add: e)
    moreover have "\<not> specificSuffixMatch_in [] f" by (simp add: specificSuffixMatch_in_def)
    ultimately show ?thesis using True by metis
  next
    case False
    then have r: "getDataTypeForFile_in (e # T) f = getDataTypeForFile_in T f" by (auto simp: e)
    with Cons.prems have "getDataTypeForFile_in T f \<noteq> FILE" by simp
    from Cons.IH [OF this] obtain pre defn' post where
      T: "T = pre @ (getDataTypeForFile_in T f, defn') # post" and
      m: "suffixMatches defn' f" and n: "\<not> specificSuffixMatch_in pre f"
      by blast
    have "e # T = (e # pre) @ (getDataTypeForFile_in T f, defn') # post" using T by simp
    moreover have "\<not> specificSuffixMatch_in (e # pre) f"
      using n False by (auto simp: specificSuffixMatch_in_def e)
    ultimately show ?thesis using m r by metis
  qed
qed

lemma dotSuffix_suffix_eq:
  assumes "dotSuffix a" "dotSuffix b" "suffix a b"
  shows "a = b"
proof -
  from assms(3) obtain p where b: "b = p @ a" by (auto simp: suffix_def)
  from assms(1) obtain as where a: "a = CHR ''.'' # as" by (auto simp: dotSuffix_def split: list.splits)
  show ?thesis
  proof (cases p)
    case Nil
    then show ?thesis using b by simp
  next
    case (Cons c p')
    then have "b = c # (p' @ CHR ''.'' # as)" using a b by simp
    then have False using assms(2) by (auto simp: dotSuffix_def)
    then show ?thesis ..
  qed
qed

lemma dotSuffix_unique:
  assumes "dotSuffix a" "dotSuffix b" "suffix a s" "suffix b s"
  shows "a = b"
proof -
  from assms(3,4) have "suffix a b \<or> suffix b a" by (rule suffix_same_cases)
  then show ?thesis using assms(1,2) dotSuffix_suffix_eq by metis
qed

lemma table_dotSuffix:
  "list_all (\<lambda>(d, defn). d = FILE \<or> list_all dotSuffix (fileSuffixes defn)) DATA_TYPE_DEFINITIONS"
  by (simp add: DATA_TYPE_DEFINITIONS_def dotSuffix_def)

lemma table_distinct: "distinct (map fst DATA_TYPE_DEFINITIONS)"
  by (simp add: DATA_TYPE_DEFINITIONS_def)

lemma lookup_mem:
  "(lookupDefinition d = Some defn) = ((d, defn) \<in> set DATA_TYPE_DEFINITIONS)"
  unfolding lookupDefinition_def using table_distinct by (metis map_of_eq_Some_iff)

subsection \<open>Lookups in the registry\<close>

lemma lookup_total: "\<exists>defn. lookupDefinition d = Some defn \<and> type defn = d"
  by (cases d) (simp_all add: lookupDefinition_def DATA_TYPE_DEFINITIONS_def)

lemma specific_suffix_cases:
  "specificSuffixMatch f =
     (\<exists>d s. d \<noteq> FILE \<and> s \<in> set (suffixesOf d) \<and> endsWith (toLowerCase f) s)"
proof -
  have "specificSuffixMatch f =
      (\<exists>d defn. (d, defn) \<in> set DATA_TYPE_DEFINITIONS \<and> d \<noteq> FILE \<and> suffixMatches defn f)"
    by (auto simp: specificSuffixMatch_def specificSuffixMatch_in_def list_ex_iff)
  also have "\<dots> = (\<exists>d defn. lookupDefinition d = Some defn \<and> d \<noteq> FILE \<and> suffixMatches defn f)"
    by (simp add: lookup_mem)
  also have "\<dots> = (\<exists>d s. d \<noteq> FILE \<and> s \<in> set (suffixesOf d) \<and> endsWith (toLowerCase f) s)"
    using lookup_total
    by (fastforce simp: suffixesOf_def suffixMatches_def some_def list_ex_iff split: option.splits)
  finally show ?thesis .
qed

subsection \<open>The registry object\<close>

text \<open>
  Claim C6. The registry holds exactly one definition for every member of
  \<open>DataTypeEnum\<close>: its keys are pairwise distinct and are all the members, and the
  definition stored under a member carries that member in its \<open>type\<close> field.
\<close>

theorem registry_well_formed:
  "distinct (map fst DATA_TYPE_DEFINITIONS) \<and>
   set (map fst DATA_TYPE_DEFINITIONS) = UNIV \<and>
   (\<forall>d. \<exists>!defn. (d, defn) \<in> set DATA_TYPE_DEFINITIONS) \<and>
   (\<forall>d. \<exists>defn. lookupDefinition d = Some defn \<and> type defn = d)"
proof (intro conjI allI)
  show "distinct (map fst DATA_TYPE_DEFINITIONS)" by (rule table_distinct)
  show "set (map fst DATA_TYPE_DEFINITIONS) = UNIV"
    unfolding DataTypeEnum_UNIV by (simp add: DATA_TYPE_DEFINITIONS_def)
  show "\<exists>!defn. (d, defn) \<in> set DATA_TYPE_DEFINITIONS" for d
    using lookup_total [of d] lookup_mem [of d] by (metis option.inject)
  show "\<exists>defn. lookupDefinition d = Some defn \<and> type defn = d" for d
    by (rule lookup_total)
qed

subsection \<open>Classification by file name\<close>

text \<open>
  Claim C1. \<open>getDataTypeForFile\<close> is total: for every file name it returns one member
  of the enum, under which the registry holds a definition; when no type other than
  \<open>FILE\<close> has a suffix that the (lower-cased) file name ends with, it returns \<open>FILE\<close>.
\<close>

theorem classification_total:
  "(\<exists>!d. getDataTypeForFile f = d) \<and>
   (\<exists>defn. lookupDefinition (getDataTypeForFile f) = Some defn \<and>
      type defn = getDataTypeForFile f) \<and>
   (\<not> specificSuffixMatch f \<longrightarrow> getDataTypeForFile f = FILE)"
  using lookup_total [of "getDataTypeForFile f"]
  by (simp add: getDataTypeForFile_def specificSuffixMatch_def search_FILE_iff)

text \<open>The file name \<open>README\<close> has no suffix of the registry and is classified \<open>FILE\<close>.\<close>

theorem classification_total_witness:
  "\<not> specificSuffixMatch ''README'' \<and> getDataTypeForFile ''README'' = FILE"
proof -
  have h: "\<not> specificSuffixMatch ''README''" by code_simp
  with classification_total [of "''README''"] show ?thesis by blast
qed

lemma nonFILE_dotSuffix:
  assumes "d \<noteq> FILE" "s \<in> set (suffixesOf d)"
  shows "dotSuffix s"
proof -
  from assms(2) obtain defn where l: "lookupDefinition d = Some defn" and s: "s \<in> set (fileSuffixes defn)"
    by (cases "lookupDefinition d") (auto simp: suffixesOf_def)
  from l have "(d, defn) \<in> set DATA_TYPE_DEFINITIONS" by (simp add: lookup_mem)
  with table_dotSuffix have "d = FILE \<or> list_all dotSuffix (fileSuffixes defn)"
    by (auto simp: list_all_iff)
  with assms(1) s show ?thesis by (auto simp: list_all_iff)
qed

lemma result_has_suffix:
  assumes "getDataTypeForFile f \<noteq> FILE"
  shows "\<exists>s. s \<in> set (suffixesOf (getDataTypeForFile f)) \<and> endsWith (toLowerCase f) s"
proof -
  from assms search_hit [of DATA_TYPE_DEFINITIONS f] obtain defn where
    m: "(getDataTypeForFile f, defn) \<in> set DATA_TYPE_DEFINITIONS" and s: "suffixMatches defn f"
    by (auto simp: getDataTypeForFile_def)
  from m have "lookupDefinition (getDataTypeForFile f) = Some defn" by (simp add: lookup_mem)
  with s show ?thesis
    by (auto simp: suffixesOf_def suffixMatches_def some_def list_ex_iff)
qed

text \<open>
  Claim C2. Whenever a suffix \<open>s\<close> of some type other than \<open>FILE\<close> matches the file
  name, \<open>getDataTypeForFile\<close> returns a type other than \<open>FILE\<close> that has a matching
  suffix at least as long as \<open>s\<close>: no matching suffix is longer than the returned type's.
  (Every suffix of the registry is a dot followed by dot-free characters, so the suffixes
  that match one file name are all the same string, which the returned type lists; among
  the types that list it, the first in the order of the registry is returned.) The entry
  of \<open>FILE\<close> takes no part in the search: the result is the one found on the registry
  without that entry.
\<close>

theorem suffix_tie_break:
  assumes "d \<noteq> FILE" "s \<in> set (suffixesOf d)" "endsWith (toLowerCase f) s"
  shows "getDataTypeForFile f \<noteq> FILE \<and>
         s \<in> set (suffixesOf (getDataTypeForFile f)) \<and>
         (\<exists>s'. s' \<in> set (suffixesOf (getDataTypeForFile f)) \<and>
            endsWith (toLowerCase f) s' \<and> length s \<le> length s') \<and>
         getDataTypeForFile f = getDataTypeForFile_in (withoutFILE DATA_TYPE_DEFINITIONS) f"
proof -
  from assms have "specificSuffixMatch f" unfolding specific_suffix_cases by blast
  then have r: "getDataTypeForFile f \<noteq> FILE"
    by (simp add: getDataTypeForFile_def specificSuffixMatch_def search_FILE_iff)
  from result_has_suffix [OF r] obtain s' where
    s': "s' \<in> set (suffixesOf (getDataTypeForFile f))" and e: "endsWith (toLowerCase f) s'"
    by blast
  have "dotSuffix s" using assms(1,2) by (rule nonFILE_dotSuffix)
  moreover have "dotSuffix s'" using r s' by (rule nonFILE_dotSuffix)
  moreover have "suffix s (toLowerCase f)" using assms(3) by (simp add: endsWith_suffix)
  moreover have "suffix s' (toLowerCase f)" using e by (simp add: endsWith_suffix)
  ultimately have "s = s'" by (rule dotSuffix_unique)
  with s' e have "s \<in> set (suffixesOf (getDataTypeForFile f)) \<and>
      (\<exists>s'. s' \<in> set (suffixesOf (getDataTypeForFile f)) \<and>
         endsWith (toLowerCase f) s' \<and> length s \<le> length s')" by auto
  moreover have "getDataTypeForFile f = getDataTypeForFile_in (withoutFILE DATA_TYPE_DEFINITIONS) f"
    by (simp add: getDataTypeForFile_def search_withoutFILE)
  ultimately show ?thesis using r by blast
qed

text \<open>
  The suffix \<open>.webm\<close> is listed by \<open>VIDEO\<close> and by \<open>AUDIO\<close>; the file \<open>Clip.WEBM\<close>
  is classified \<open>VIDEO\<close>.
\<close>

theorem suffix_tie_break_witness:
  "''.webm'' \<in> set (suffixesOf AUDIO) \<and> ''.webm'' \<in> set (suffixesOf VIDEO) \<and>
   endsWith (toLowerCase ''Clip.WEBM'') ''.webm'' \<and>
   getDataTypeForFile ''Clip.WEBM'' = VIDEO \<and>
   (\<exists>s'. s' \<in> set (suffixesOf (getDataTypeForFile ''Clip.WEBM'')) \<and>
      endsWith (toLowerCase ''Clip.WEBM'') s' \<and> length ''.webm'' \<le> length s')"
proof -
  have h1: "AUDIO \<noteq> FILE" by simp
  have h2: "''.webm'' \<in> set (suffixesOf AUDIO)" by code_simp
  have h3: "endsWith (toLowerCase ''Clip.WEBM'') ''.webm''" by code_simp
  have h4: "''.webm'' \<in> set (suffixesOf VIDEO)" by code_simp
  have h5: "getDataTypeForFile ''Clip.WEBM'' = VIDEO" by code_simp
  from suffix_tie_break [OF h1 h2 h3] h2 h3 h4 h5 show ?thesis by blast
qed

lemma suffixMatches_lower: "suffixMatches defn (toLowerCase f) = suffixMatches defn f"
  by (simp add: suffixMatches_def toLowerCase_idem)

lemma search_lower: "getDataTypeForFile_in T (toLowerCase f) = getDataTypeForFile_in T f"
  by (induction T) (auto simp: suffixMatches_lower)

text \<open>
  Claim C9. Classification does not depend on the case of the file name:
  \<open>getDataTypeForFile\<close> and \<open>matchesSuffix\<close> return on a file name what they return on
  the lower-cased file name.
\<close>

theorem classification_case_insensitive:
  "getDataTypeForFile f = getDataTypeForFile (toLowerCase f) \<and>
   matchesSuffix f d = matchesSuffix (toLowerCase f) d"
  by (simp add: getDataTypeForFile_def matchesSuffix_def matchesSuffix_in_def search_lower
      suffixMatches_lower split: option.splits)

subsection \<open>MIME types\<close>

lemma mime_of_file: "getMimeTypeForFile f = getPrimaryMimeType (getDataTypeForFile f)"
  by (simp add: getMimeTypeForFile_def getMimeTypeForFile_in_def getPrimaryMimeType_def
      getPrimaryMimeType_in_def getDataTypeForFile_def)

lemma primary_mime_first:
  "\<exists>defn m ms. lookupDefinition d = Some defn \<and> mimeTypes defn = m # ms \<and>
     \<not> falsy (firstElement (mimeTypes defn)) \<and> getPrimaryMimeType d = Inr m"
  by (cases d)
    (simp_all add: lookupDefinition_def getPrimaryMimeType_def getPrimaryMimeType_in_def
      DATA_TYPE_DEFINITIONS_def firstElement_def falsy_def orElse_def)

text \<open>
  Claim C10. Every definition of the registry has a non-empty list of MIME types whose
  first entry is a non-empty string. So \<open>getPrimaryMimeType\<close> returns the first MIME
  type of the given type, \<open>getMimeTypeForFile\<close> returns the first MIME type of the type
  the file is classified as, and in neither is the operand \<open>mimeTypes[0]\<close> of \<open>||\<close>
  falsy: the default \<open>application/octet-stream\<close> is never what \<open>||\<close> selects.
\<close>

theorem mime_default_unreachable:
  "list_all (\<lambda>(d, defn). mimeTypes defn \<noteq> []) DATA_TYPE_DEFINITIONS \<and>
   (\<forall>d. \<exists>defn m ms. lookupDefinition d = Some defn \<and> mimeTypes defn = m # ms \<and>
      \<not> falsy (firstElement (mimeTypes defn)) \<and> getPrimaryMimeType d = Inr m) \<and>
   (\<forall>f. \<exists>defn m ms. lookupDefinition (getDataTypeForFile f) = Some defn \<and>
      mimeTypes defn = m # ms \<and> \<not> falsy (firstElement (mimeTypes defn)) \<and>
      getMimeTypeForFile f = Inr m)"
proof (intro conjI allI)
  show "list_all (\<lambda>(d, defn). mimeTypes defn \<noteq> []) DATA_TYPE_DEFINITIONS"
    by (simp add: DATA_TYPE_DEFINITIONS_def)
  show "\<exists>defn m ms. lookupDefinition d = Some defn \<and> mimeTypes defn = m # ms \<and>
      \<not> falsy (firstElement (mimeTypes defn)) \<and> getPrimaryMimeType d = Inr m" for d
    by (rule primary_mime_first)
  show "\<exists>defn m ms. lookupDefinition (getDataTypeForFile f) = Some defn \<and>
      mimeTypes defn = m # ms \<and> \<not> falsy (firstElement (mimeTypes defn)) \<and>
      getMimeTypeForFile f = Inr m" for f
    unfolding mime_of_file by (rule primary_mime_first)
qed

subsection \<open>Payload sizes\<close>

lemma validate_eq: "validatePayloadSize p = Inr (\<not> exceedsCeiling p)"
  by (cases "dataType p"; cases "originalSize p")
    (simp_all add: validatePayloadSize_def validatePayloadSize_in_def sizeWithinLimit_def
      exceedsCeiling_def maxSizeBytes_def lookupDefinition_def DATA_TYPE_DEFINITIONS_def
      not_less)

lemma ceiling_declared: "\<exists>c. maxSizeBytes d = Some c \<and> 0 < c"
  by (cases d) (simp_all add: maxSizeBytes_def lookupDefinition_def DATA_TYPE_DEFINITIONS_def)

text \<open>
  Claim C4. \<open>validatePayloadSize\<close> returns \<open>false\<close> exactly when the payload's
  \<open>originalSize\<close> is above the ceiling of its data type, counted in bytes, and \<open>true\<close>
  otherwise; on a registry whose definition for the payload's type declares no ceiling it
  returns \<open>true\<close> whatever the size; and a payload whose size is the ceiling is valid.
\<close>

theorem size_validation:
  "(validatePayloadSize p = Inr False) = exceedsCeiling p \<and>
   (validatePayloadSize p = Inr True) = (\<not> exceedsCeiling p) \<and>
   (map_of T (dataType p) = Some defn \<and> maxSizeMB defn = None \<longrightarrow>
      validatePayloadSize_in T p = Inr True) \<and>
   (originalSize p = maxSizeBytes (dataType p) \<longrightarrow> validatePayloadSize p = Inr True)"
proof (intro conjI impI)
  show "(validatePayloadSize p = Inr False) = exceedsCeiling p" by (simp add: validate_eq)
  show "(validatePayloadSize p = Inr True) = (\<not> exceedsCeiling p)" by (simp add: validate_eq)
  show "validatePayloadSize_in T p = Inr True"
    if "map_of T (dataType p) = Some defn \<and> maxSizeMB defn = None"
    using that by (simp add: validatePayloadSize_in_def sizeWithinLimit_def)
  show "validatePayloadSize p = Inr True" if "originalSize p = maxSizeBytes (dataType p)"
    using that by (auto simp: validate_eq exceedsCeiling_def split: option.splits)
qed

text \<open>
  A definition without a ceiling accepts a payload of 99999999999 bytes; for
  \<open>TIME_SERIES\<close> (100 MB) a payload of 104857600 bytes is valid and one of 104857601
  bytes is not.
\<close>

theorem size_validation_witness:
  "maxSizeMB unlimitedDefinition = None \<and>
   validatePayloadSize_in [(FILE, unlimitedDefinition)] (payloadOf FILE (Some 99999999999)) =
     Inr True \<and>
   originalSize (payloadOf TIME_SERIES (Some 104857600)) = maxSizeBytes TIME_SERIES \<and>
   validatePayloadSize (payloadOf TIME_SERIES (Some 104857600)) = Inr True \<and>
   exceedsCeiling (payloadOf TIME_SERIES (Some 104857601)) \<and>
   validatePayloadSize (payloadOf TIME_SERIES (Some 104857601)) = Inr False"
proof -
  have h1: "maxSizeMB unlimitedDefinition = None" by (simp add: unlimitedDefinition_def)
  have h2: "originalSize (payloadOf TIME_SERIES (Some 104857600)) =
      maxSizeBytes (dataType (payloadOf TIME_SERIES (Some 104857600)))"
    by (simp add: payloadOf_def maxSizeBytes_def lookupDefinition_def DATA_TYPE_DEFINITIONS_def)
  have h3: "exceedsCeiling (payloadOf TIME_SERIES (Some 104857601))"
    by (simp add: payloadOf_def exceedsCeiling_def maxSizeBytes_def lookupDefinition_def
        DATA_TYPE_DEFINITIONS_def)
  have d: "dataType (payloadOf TIME_SERIES (Some 104857600)) = TIME_SERIES"
    by (simp add: payloadOf_def)
  have h0: "map_of [(FILE, unlimitedDefinition)] (dataType (payloadOf FILE (Some 99999999999))) =
      Some unlimitedDefinition"
    by (simp add: payloadOf_def)
  from size_validation [of "payloadOf FILE (Some 99999999999)" "[(FILE, unlimitedDefinition)]"
      unlimitedDefinition] h0 h1
  have c1: "validatePayloadSize_in [(FILE, unlimitedDefinition)]
      (payloadOf FILE (Some 99999999999)) = Inr True" by blast
  from size_validation [of "payloadOf TIME_SERIES (Some 104857600)" "[]" unlimitedDefinition] h2
  have c2: "validatePayloadSize (payloadOf TIME_SERIES (Some 104857600)) = Inr True" by blast
  from size_validation [of "payloadOf TIME_SERIES (Some 104857601)" "[]" unlimitedDefinition] h3
  have c3: "validatePayloadSize (payloadOf TIME_SERIES (Some 104857601)) = Inr False" by blast
  from h1 h2 h3 c1 c2 c3 d show ?thesis by simp
qed

text \<open>
  Claim C8. A payload without \<open>originalSize\<close> is valid, although its data type declares
  a ceiling: the missing size counts as 0 bytes, so the payload is judged as the same
  payload with \<open>originalSize = 0\<close> is.
\<close>

theorem missing_size_valid:
  assumes "originalSize p = None"
  shows "validatePayloadSize p = Inr True \<and>
         validatePayloadSize p = validatePayloadSize (p\<lparr>originalSize := Some 0\<rparr>) \<and>
         (\<exists>c. maxSizeBytes (dataType p) = Some c)"
proof -
  have "\<not> exceedsCeiling p" using assms by (simp add: exceedsCeiling_def)
  moreover obtain c where c: "maxSizeBytes (dataType p) = Some c" "0 < c"
    using ceiling_declared by blast
  moreover have "\<not> exceedsCeiling (p\<lparr>originalSize := Some 0\<rparr>)"
    using c by (simp add: exceedsCeiling_def)
  ultimately show ?thesis by (simp add: validate_eq)
qed

text \<open>A \<open>PARAMETERS\<close> payload (ceiling 10 MB) without a size.\<close>

theorem missing_size_valid_witness:
  "originalSize (payloadOf PARAMETERS None) = None \<and>
   maxSizeBytes PARAMETERS = Some 10485760 \<and>
   validatePayloadSize (payloadOf PARAMETERS None) = Inr True"
proof -
  have h: "originalSize (payloadOf PARAMETERS None) = None" by (simp add: payloadOf_def)
  have m: "maxSizeBytes PARAMETERS = Some 10485760"
    by (simp add: maxSizeBytes_def lookupDefinition_def DATA_TYPE_DEFINITIONS_def)
  from missing_size_valid [OF h] h m show ?thesis by simp
qed

subsection \<open>Classification has one stage\<close>

lemma search_FILE_mime:
  "\<not> specificSuffixMatch f \<Longrightarrow> getMimeTypeForFile f = Inr ''application/octet-stream''"
proof -
  assume "\<not> specificSuffixMatch f"
  then have "getDataTypeForFile f = FILE"
    by (simp add: getDataTypeForFile_def specificSuffixMatch_def search_FILE_iff)
  then show ?thesis
    by (simp add: mime_of_file getPrimaryMimeType_def getPrimaryMimeType_in_def
        DATA_TYPE_DEFINITIONS_def firstElement_def orElse_def falsy_def)
qed

text \<open>
  Claim C3, as amended. \<open>getDataTypeForFile\<close> takes a file name and nothing else; it
  has no stage for an explicit identifier and none for a MIME type. It returns \<open>FILE\<close>
  exactly when no type other than \<open>FILE\<close> has a suffix that the lower-cased file name
  ends with, and \<open>getMimeTypeForFile\<close> then answers \<open>application/octet-stream\<close>,
  whatever MIME type the file may come with.
\<close>

theorem suffix_only_classification:
  "(getDataTypeForFile f = FILE) = (\<not> specificSuffixMatch f) \<and>
   (\<not> specificSuffixMatch f \<longrightarrow> getMimeTypeForFile f = Inr ''application/octet-stream'')"
  by (simp add: search_FILE_mime getDataTypeForFile_def specificSuffixMatch_def search_FILE_iff)

text \<open>The file name \<open>frame\<close> matches no suffix.\<close>

theorem suffix_only_classification_witness:
  "\<not> specificSuffixMatch ''frame'' \<and> getDataTypeForFile ''frame'' = FILE \<and>
   getMimeTypeForFile ''frame'' = Inr ''application/octet-stream''"
proof -
  have h: "\<not> specificSuffixMatch ''frame''" by code_simp
  with suffix_only_classification [of "''frame''"] show ?thesis by blast
qed

text \<open>
  Claim C3 as it was stated fails: a file named \<open>frame\<close> that comes with the MIME type
  \<open>image/png\<close> matches no suffix, and \<open>image/png\<close> is a MIME type of \<open>IMAGES\<close> (and
  not of \<open>FILE\<close>), yet the file is classified \<open>FILE\<close>, not \<open>IMAGES\<close>.
\<close>

theorem mime_stage_counterexample:
  "\<not> specificSuffixMatch ''frame'' \<and>
   ''image/png'' \<in> set (mimeCandidatesOf IMAGES) \<and>
   ''image/png'' \<notin> set (mimeCandidatesOf FILE) \<and>
   getDataTypeForFile ''frame'' \<noteq> IMAGES \<and>
   getDataTypeForFile ''frame'' = FILE"
  by code_simp

subsection \<open>Calls leave the registry as it is\<close>

text \<open>What each step does to the registry, and what it returns.\<close>

lemma pureAct_run: "pureAct x \<sigma> = (Inr x, \<sigma>)"
  by (simp add: pureAct_def)

lemma andThen_run:
  "andThen m k \<sigma> = (case m \<sigma> of (Inl e, \<sigma>') \<Rightarrow> (Inl e, \<sigma>') | (Inr x, \<sigma>') \<Rightarrow> k x \<sigma>')"
  by (simp add: andThen_def)

lemma objectEntries_run: "objectEntries \<sigma> = (Inr \<sigma>, \<sigma>)"
  by (simp add: objectEntries_def)

lemma readProperty_run: "readProperty key \<sigma> = (Inr (map_of \<sigma> key), \<sigma>)"
  by (simp add: readProperty_def)

lemma member_run:
  "member None sel \<sigma> = (Inl TypeError, \<sigma>)"
  "member (Some v) sel \<sigma> = (Inr (sel v), \<sigma>)"
  by (simp_all add: member_def)

lemmas step_run = pureAct_run andThen_run objectEntries_run readProperty_run member_run

lemma arraySome_run:
  "arraySome xs (\<lambda>x. pureAct (p x)) \<sigma> = (Inr (list_ex p xs), \<sigma>)"
  by (induction xs) (simp_all add: step_run)

lemma entriesLoop_run:
  "entriesLoop entries f \<sigma> = (Inr (getDataTypeForFile_in entries f), \<sigma>)"
proof (induction entries)
  case Nil
  show ?case by (simp add: step_run)
next
  case (Cons e entries)
  obtain dtype defn where e: "e = (dtype, defn)" by (cases e)
  show ?case
    by (simp add: e Cons.IH suffixMatches_def some_def step_run arraySome_run)
qed

lemma getDataTypeForFile_act_run:
  "getDataTypeForFile_act f \<sigma> = (Inr (getDataTypeForFile_in \<sigma> f), \<sigma>)"
  by (simp add: getDataTypeForFile_act_def step_run entriesLoop_run)

lemma getPrimaryMimeType_act_run:
  "getPrimaryMimeType_act d \<sigma> = (getPrimaryMimeType_in \<sigma> d, \<sigma>)"
  by (cases "map_of \<sigma> d")
    (simp_all add: getPrimaryMimeType_act_def getPrimaryMimeType_in_def step_run)

lemma getMimeTypeForFile_act_run:
  "getMimeTypeForFile_act f \<sigma> = (getMimeTypeForFile_in \<sigma> f, \<sigma>)"
  by (cases "map_of \<sigma> (getDataTypeForFile_in \<sigma> f)")
    (simp_all add: getMimeTypeForFile_act_def getMimeTypeForFile_in_def
      getDataTypeForFile_act_run step_run)

lemma validatePayloadSize_act_run:
  "validatePayloadSize_act p \<sigma> = (validatePayloadSize_in \<sigma> p, \<sigma>)"
proof (cases "map_of \<sigma> (dataType p)")
  case None
  then show ?thesis
    by (simp add: validatePayloadSize_act_def validatePayloadSize_in_def step_run)
next
  case (Some defn)
  then show ?thesis
    by (cases "maxSizeMB defn")
      (simp_all add: validatePayloadSize_act_def validatePayloadSize_in_def sizeWithinLimit_def
        step_run Let_def)
qed

lemma matchesSuffix_act_run:
  "matchesSuffix_act f d \<sigma> = (matchesSuffix_in \<sigma> f d, \<sigma>)"
proof (cases "map_of \<sigma> d")
  case None
  then show ?thesis
    by (simp add: matchesSuffix_act_def matchesSuffix_in_def step_run)
next
  case (Some defn)
  then show ?thesis
    by (simp add: matchesSuffix_act_def matchesSuffix_in_def step_run arraySome_run
        suffixMatches_def some_def)
qed

lemmas body_run = getDataTypeForFile_act_run getMimeTypeForFile_act_run
  getPrimaryMimeType_act_run validatePayloadSize_act_run matchesSuffix_act_run

lemma invoke_state: "snd (invoke c \<sigma>) = \<sigma>"
proof (cases c)
  case (GetDataTypeForFile f)
  then show ?thesis by (simp add: body_run step_run)
next
  case (GetMimeTypeForFile f)
  then show ?thesis
    by (cases "getMimeTypeForFile_in \<sigma> f") (simp_all add: body_run step_run)
next
  case (GetPrimaryMimeType d)
  then show ?thesis
    by (cases "getPrimaryMimeType_in \<sigma> d") (simp_all add: body_run step_run)
next
  case (ValidatePayloadSize p)
  then show ?thesis
    by (cases "validatePayloadSize_in \<sigma> p") (simp_all add: body_run step_run)
next
  case (MatchesSuffix f d)
  then show ?thesis
    by (cases "matchesSuffix_in \<sigma> f d") (simp_all add: body_run step_run)
qed

lemma invokeAll_eq: "invokeAll cs \<sigma> = (map (\<lambda>c. fst (invoke c \<sigma>)) cs, \<sigma>)"
proof (induction cs)
  case Nil
  then show ?case by simp
next
  case (Cons c cs)
  obtain r where r: "invoke c \<sigma> = (r, \<sigma>)"
    using invoke_state [of c \<sigma>] by (metis prod.collapse)
  show ?case by (simp add: r Cons.IH)
qed

lemma invoke_module: "fst (invoke c DATA_TYPE_DEFINITIONS) = moduleResult c"
proof (cases c)
  case (GetDataTypeForFile f)
  then show ?thesis by (simp add: body_run step_run getDataTypeForFile_def)
next
  case (GetMimeTypeForFile f)
  then show ?thesis
    by (cases "getMimeTypeForFile_in DATA_TYPE_DEFINITIONS f")
      (simp_all add: body_run step_run getMimeTypeForFile_def)
next
  case (GetPrimaryMimeType d)
  then show ?thesis
    by (cases "getPrimaryMimeType_in DATA_TYPE_DEFINITIONS d")
      (simp_all add: body_run step_run getPrimaryMimeType_def)
next
  case (ValidatePayloadSize p)
  then show ?thesis
    by (cases "validatePayloadSize_in DATA_TYPE_DEFINITIONS p")
      (simp_all add: body_run step_run validatePayloadSize_def)
next
  case (MatchesSuffix f d)
  then show ?thesis
    by (cases "matchesSuffix_in DATA_TYPE_DEFINITIONS f d")
      (simp_all add: body_run step_run matchesSuffix_def)
qed

text \<open>
  That a call leaves the registry alone is a property of the five bodies, not of actions
  as such: the variant with \<open>shift\<close> leaves another registry than it found, and its
  second call for \<open>IMAGES\<close> returns another MIME type than its first.
\<close>

lemma shifting_changes_registry:
  "snd (getPrimaryMimeType_shifting IMAGES DATA_TYPE_DEFINITIONS) \<noteq> DATA_TYPE_DEFINITIONS \<and>
   fst (getPrimaryMimeType_shifting IMAGES DATA_TYPE_DEFINITIONS) = Inr ''image/jpeg'' \<and>
   fst (getPrimaryMimeType_shifting IMAGES
     (snd (getPrimaryMimeType_shifting IMAGES DATA_TYPE_DEFINITIONS))) = Inr ''image/png''"
  by code_simp

text \<open>
  Claim C7. A call of \<open>getDataTypeForFile\<close>, \<open>getMimeTypeForFile\<close>,
  \<open>getPrimaryMimeType\<close>, \<open>validatePayloadSize\<close> or \<open>matchesSuffix\<close> leaves the
  registry as it found it, whether it returns or throws, and returns what the function
  computes from its arguments and that registry. So does any sequence of such
  calls, each call of the sequence returns what it returns on the registry the sequence
  started with (on \<open>DATA_TYPE_DEFINITIONS\<close>: what the module's function returns), and
  two calls of a sequence that are the same operation on equal arguments return equal
  results.
\<close>

theorem registry_operations_pure:
  "getDataTypeForFile_act f \<sigma> = (Inr (getDataTypeForFile_in \<sigma> f), \<sigma>) \<and>
   getMimeTypeForFile_act f \<sigma> = (getMimeTypeForFile_in \<sigma> f, \<sigma>) \<and>
   getPrimaryMimeType_act d \<sigma> = (getPrimaryMimeType_in \<sigma> d, \<sigma>) \<and>
   validatePayloadSize_act p \<sigma> = (validatePayloadSize_in \<sigma> p, \<sigma>) \<and>
   matchesSuffix_act f d \<sigma> = (matchesSuffix_in \<sigma> f d, \<sigma>) \<and>
   snd (invoke c \<sigma>) = \<sigma> \<and>
   invokeAll cs \<sigma> = (map (\<lambda>c. fst (invoke c \<sigma>)) cs, \<sigma>) \<and>
   invokeAll cs DATA_TYPE_DEFINITIONS = (map moduleResult cs, DATA_TYPE_DEFINITIONS) \<and>
   (i < length cs \<and> j < length cs \<and> cs ! i = cs ! j \<longrightarrow>
      fst (invokeAll cs \<sigma>) ! i = fst (invokeAll cs \<sigma>) ! j)"
proof (intro conjI impI)
  show "getDataTypeForFile_act f \<sigma> = (Inr (getDataTypeForFile_in \<sigma> f), \<sigma>)"
    by (rule getDataTypeForFile_act_run)
  show "getMimeTypeForFile_act f \<sigma> = (getMimeTypeForFile_in \<sigma> f, \<sigma>)"
    by (rule getMimeTypeForFile_act_run)
  show "getPrimaryMimeType_act d \<sigma> = (getPrimaryMimeType_in \<sigma> d, \<sigma>)"
    by (rule getPrimaryMimeType_act_run)
  show "validatePayloadSize_act p \<sigma> = (validatePayloadSize_in \<sigma> p, \<sigma>)"
    by (rule validatePayloadSize_act_run)
  show "matchesSuffix_act f d \<sigma> = (matchesSuffix_in \<sigma> f d, \<sigma>)"
    by (rule matchesSuffix_act_run)
  show "snd (invoke c \<sigma>) = \<sigma>" by (rule invoke_state)
  show "invokeAll cs \<sigma> = (map (\<lambda>c. fst (invoke c \<sigma>)) cs, \<sigma>)" by (rule invokeAll_eq)
  show "invokeAll cs DATA_TYPE_DEFINITIONS = (map moduleResult cs, DATA_TYPE_DEFINITIONS)"
    by (simp add: invokeAll_eq invoke_module)
  show "fst (invokeAll cs \<sigma>) ! i = fst (invokeAll cs \<sigma>) ! j"
    if "i < length cs \<and> j < length cs \<and> cs ! i = cs ! j"
    using that by (simp add: invokeAll_eq)
qed

text \<open>Four calls, the first and the last of them equal.\<close>

theorem registry_operations_pure_witness:
  "invokeAll [GetDataTypeForFile ''run.csv'', ValidatePayloadSize (payloadOf CSV None),
      GetPrimaryMimeType CSV, GetDataTypeForFile ''run.csv''] DATA_TYPE_DEFINITIONS =
     ([Inr (DataTypeResult CSV), Inr (BoolResult True), Inr (StringResult ''text/csv''),
       Inr (DataTypeResult CSV)], DATA_TYPE_DEFINITIONS) \<and>
   fst (invokeAll [GetDataTypeForFile ''run.csv'', ValidatePayloadSize (payloadOf CSV None),
      GetPrimaryMimeType CSV, GetDataTypeForFile ''run.csv''] DATA_TYPE_DEFINITIONS) ! 0 =
   fst (invokeAll [GetDataTypeForFile ''run.csv'', ValidatePayloadSize (payloadOf CSV None),
      GetPrimaryMimeType CSV, GetDataTypeForFile ''run.csv''] DATA_TYPE_DEFINITIONS) ! 3"
proof -
  let ?cs = "[GetDataTypeForFile ''run.csv'', ValidatePayloadSize (payloadOf CSV None),
      GetPrimaryMimeType CSV, GetDataTypeForFile ''run.csv'']"
  have h: "0 < length ?cs \<and> 3 < length ?cs \<and> ?cs ! 0 = ?cs ! 3" by simp
  have m: "map moduleResult ?cs = [Inr (DataTypeResult CSV), Inr (BoolResult True),
      Inr (StringResult ''text/csv''), Inr (DataTypeResult CSV)]"
    by code_simp
  have t: "invokeAll ?cs DATA_TYPE_DEFINITIONS = (map moduleResult ?cs, DATA_TYPE_DEFINITIONS) \<and>
      (0 < length ?cs \<and> 3 < length ?cs \<and> ?cs ! 0 = ?cs ! 3 \<longrightarrow>
         fst (invokeAll ?cs DATA_TYPE_DEFINITIONS) ! 0 = fst (invokeAll ?cs DATA_TYPE_DEFINITIONS) ! 3)"
    using registry_operations_pure [of "''run.csv''" DATA_TYPE_DEFINITIONS CSV
        "payloadOf CSV None" "GetPrimaryMimeType CSV" ?cs 0 3]
    by (elim conjE) (intro conjI)
  from t have a: "invokeAll ?cs DATA_TYPE_DEFINITIONS = (map moduleResult ?cs, DATA_TYPE_DEFINITIONS)"
    by (rule conjunct1)
  from t have "0 < length ?cs \<and> 3 < length ?cs \<and> ?cs ! 0 = ?cs ! 3 \<longrightarrow>
      fst (invokeAll ?cs DATA_TYPE_DEFINITIONS) ! 0 = fst (invokeAll ?cs DATA_TYPE_DEFINITIONS) ! 3"
    by (rule conjunct2)
  from this h have b: "fst (invokeAll ?cs DATA_TYPE_DEFINITIONS) ! 0 =
      fst (invokeAll ?cs DATA_TYPE_DEFINITIONS) ! 3"
    by (rule mp)
  from a [unfolded m] b show ?thesis by (rule conjI)
qed

subsection \<open>The order of the registry decides among equal suffixes\<close>

text \<open>
  When \<open>getDataTypeForFile\<close> returns a type other than \<open>FILE\<close>, the entry of that type
  matches the file name, and no entry before it in the registry (the entry of \<open>FILE\<close>
  left aside) does.
\<close>

theorem first_match_wins:
  assumes "getDataTypeForFile f \<noteq> FILE"
  shows "\<exists>pre defn post.
           DATA_TYPE_DEFINITIONS = pre @ (getDataTypeForFile f, defn) # post \<and>
           suffixMatches defn f \<and> \<not> specificSuffixMatch_in pre f"
  using assms search_first [of DATA_TYPE_DEFINITIONS f] by (simp add: getDataTypeForFile_def)

text \<open>
  \<open>.json\<close> is a suffix of \<open>TIME_SERIES\<close> and of \<open>PARAMETERS\<close>; \<open>TIME_SERIES\<close> comes
  first.
\<close>

theorem first_match_wins_witness:
  "getDataTypeForFile ''config.JSON'' = TIME_SERIES \<and>
   ''.json'' \<in> set (suffixesOf PARAMETERS) \<and>
   (\<exists>pre defn post.
      DATA_TYPE_DEFINITIONS = pre @ (getDataTypeForFile ''config.JSON'', defn) # post \<and>
      suffixMatches defn ''config.JSON'' \<and> \<not> specificSuffixMatch_in pre ''config.JSON'')"
proof -
  have h: "getDataTypeForFile ''config.JSON'' = TIME_SERIES" by code_simp
  then have h': "getDataTypeForFile ''config.JSON'' \<noteq> FILE" by simp
  have p: "''.json'' \<in> set (suffixesOf PARAMETERS)" by code_simp
  from first_match_wins [OF h'] h p show ?thesis by blast
qed

end
